theory Spec2Isabelle
  imports Main "HOL-Library.Sublist"
begin

section \<open>JavaScript values, strings and effects\<close>

text \<open>
  Strings are \<^typ>\<open>string\<close>: a character stands for one code unit of a JavaScript
  string, restricted to the range 0..255 (Latin-1), and \<open>length\<close> counts code units as
  \<open>String.prototype.length\<close> does.  The string methods below follow ECMAScript on that
  range.
\<close>

definition includes_js :: "string \<Rightarrow> string \<Rightarrow> bool" where
  "includes_js s p = sublist p s"

definition startsWith :: "string \<Rightarrow> string \<Rightarrow> bool" where
  "startsWith s p = prefix p s"

text \<open>\<open>toLowerCase\<close> on Latin-1: A-Z and the upper-case letters 0xC0-0xDE (without the
  multiplication sign 0xD7) move up by 32; every other code unit is unchanged.\<close>

definition lower_char :: "char \<Rightarrow> char" where
  "lower_char c =
     (let n = (of_char c :: nat) in
      if (65 \<le> n \<and> n \<le> 90) \<or> (192 \<le> n \<and> n \<le> 222 \<and> n \<noteq> 215)
      then char_of (n + 32) else c)"

definition toLowerCase :: "string \<Rightarrow> string" where
  "toLowerCase s = map lower_char s"

text \<open>White space of \<open>trim\<close> and of the regular expression class \<open>\s\<close> on Latin-1:
  TAB, LF, VT, FF, CR, SPACE and NBSP.\<close>

definition is_space :: "char \<Rightarrow> bool" where
  "is_space c = ((of_char c :: nat) \<in> {9, 10, 11, 12, 13, 32, 160})"

definition trim :: "string \<Rightarrow> string" where
  "trim s = rev (dropWhile is_space (rev (dropWhile is_space s)))"

text \<open>Decimal rendering of a number inside a template string.\<close>

fun show_nat :: "nat \<Rightarrow> string" where
  "show_nat n =
     (if n < 10 then [char_of (48 + n)]
      else show_nat (n div 10) @ [char_of (48 + n mod 10)])"

declare show_nat.simps [simp del]

text \<open>Dynamically typed values: the object literals the code builds and the values
  \<open>JSON.parse\<close> returns.  An object is the list of its properties in insertion order.\<close>

datatype jsval =
    JUndefined
  | JNull
  | JBool bool
  | JNum int
  | JStr string
  | JArr "jsval list"
  | JObj "(string \<times> jsval) list"

fun truthy :: "jsval \<Rightarrow> bool" where
  "truthy JUndefined = False"
| "truthy JNull = False"
| "truthy (JBool b) = b"
| "truthy (JNum n) = (n \<noteq> 0)"
| "truthy (JStr s) = (s \<noteq> [])"
| "truthy (JArr _) = True"
| "truthy (JObj _) = True"

text \<open>An awaited call or an expression either returns a value or throws; the thrown
  error is represented by its \<open>message\<close>.\<close>

datatype 'a attempt = Raised string | Ok 'a

fun returned :: "'a attempt \<Rightarrow> bool" where
  "returned (Raised _) = False"
| "returned (Ok _) = True"

text \<open>Reading a property: \<open>undefined\<close> when the object has no such property, a
  \<open>TypeError\<close> when the receiver is \<open>undefined\<close> or \<open>null\<close>.  Only properties that
  are no built-ins of strings, numbers or arrays are read through this function.\<close>

fun get_prop :: "jsval \<Rightarrow> string \<Rightarrow> jsval attempt" where
  "get_prop JUndefined k = Raised (''Cannot read properties of undefined (reading '' @ k @ '')'')"
| "get_prop JNull k = Raised (''Cannot read properties of null (reading '' @ k @ '')'')"
| "get_prop (JObj kvs) k = (case map_of kvs k of None \<Rightarrow> Ok JUndefined | Some v \<Rightarrow> Ok v)"
| "get_prop _ k = Ok JUndefined"

text \<open>The observable effects, in the order they happen.\<close>

datatype level = Debug | Info | Warning | Error

datatype event =
    Log level string
  | Fetch string nat
  | Launch
  | NewContext
  | NewPage
  | Goto string nat
  | WaitForTimeout nat
  | Content
  | Title
  | Close
  | Sleep nat
  | Spawn string "string list"
  | StdinWrite string
  | StdinEnd
  | SetTimer int
  | Kill
  | Generate string
  | Post string

type_synonym 'a io = "event list \<times> 'a attempt"

definition ret :: "'a \<Rightarrow> 'a io" where
  "ret x = ([], Ok x)"

definition emit :: "event \<Rightarrow> unit io" where
  "emit e = ([e], Ok ())"

definition call :: "event \<Rightarrow> 'a attempt \<Rightarrow> 'a io" where
  "call e r = ([e], r)"

definition bind :: "'a io \<Rightarrow> ('a \<Rightarrow> 'b io) \<Rightarrow> 'b io" where
  "bind m f =
     (case m of
        (t, Raised e) \<Rightarrow> (t, Raised e)
      | (t, Ok x) \<Rightarrow> (case f x of (t', r) \<Rightarrow> (t @ t', r)))"

definition try_catch :: "'a io \<Rightarrow> (string \<Rightarrow> 'a io) \<Rightarrow> 'a io" where
  "try_catch m h =
     (case m of
        (t, Raised e) \<Rightarrow> (case h e of (t', r) \<Rightarrow> (t @ t', r))
      | (t, Ok x) \<Rightarrow> (t, Ok x))"

definition try_finally :: "'a io \<Rightarrow> unit io \<Rightarrow> 'a io" where
  "try_finally m fin =
     (case m of (t, r) \<Rightarrow>
        (case fin of
           (t', Raised e) \<Rightarrow> (t @ t', Raised e)
         | (t', Ok _) \<Rightarrow> (t @ t', r)))"

definition trace :: "'a io \<Rightarrow> event list" where
  "trace m = fst m"

definition outcome :: "'a io \<Rightarrow> 'a attempt" where
  "outcome m = snd m"

section \<open>Direct fetch: \<open>simpleFetch\<close>\<close>

text \<open>What the network does with one request: it fails or answers after some
  milliseconds.  \<open>response.ok\<close> is the status range 200..299; reading the body
  (\<open>response.text()\<close>) may fail too.\<close>

record response =
  status :: nat
  statusText :: string
  body :: "string attempt"

datatype net_reply = NetFail nat string | NetResponse nat response

definition ok :: "response \<Rightarrow> bool" where
  "ok r = (200 \<le> status r \<and> status r \<le> 299)"

record simple_result =
  success :: bool
  html :: "string option"
  text_js :: "string option"
  error :: "string option"

text \<open>The \<open>html\<close> of a result as a string; a missing one and the empty one are both
  falsy where the engine tests it.\<close>

definition html_str :: "simple_result \<Rightarrow> string" where
  "html_str r = (case html r of None \<Rightarrow> [] | Some h \<Rightarrow> h)"

definition failed :: "string \<Rightarrow> simple_result" where
  "failed msg = \<lparr>success = False, html = None, text_js = None, error = Some msg\<rparr>"

text \<open>\<^verbatim>\<open>html.replace(/<[^>]*>/g, ' ')\<close>: each opening angle bracket that has a closing
  one after it is replaced, up to the first closing one, by one space; an opening angle
  bracket with no closing one after it stays.\<close>

function strip_tags :: "string \<Rightarrow> string" where
  "strip_tags [] = []"
| "strip_tags (c # cs) =
     (if c = CHR ''<'' \<and> CHR ''>'' \<in> set cs
      then CHR '' '' # strip_tags (tl (dropWhile (\<lambda>d. d \<noteq> CHR ''>'') cs))
      else c # strip_tags cs)"
  by pat_completeness auto
termination
proof (relation "measure length")
  fix c :: char and cs :: string
  have "length (tl (dropWhile (\<lambda>d. d \<noteq> CHR ''>'') cs)) \<le> length cs"
    using length_dropWhile_le [of "\<lambda>d. d \<noteq> CHR ''>''" cs] by simp
  then show "(tl (dropWhile (\<lambda>d. d \<noteq> CHR ''>'') cs), c # cs) \<in> measure length"
    by simp
qed simp_all

text \<open>\<open>.replace(/\s+/g, ' ')\<close>: every maximal run of white space becomes one space.\<close>

function collapse_spaces :: "string \<Rightarrow> string" where
  "collapse_spaces [] = []"
| "collapse_spaces (c # cs) =
     (if is_space c then CHR '' '' # collapse_spaces (dropWhile is_space cs)
      else c # collapse_spaces cs)"
  by pat_completeness auto
termination
  by (relation "measure length")
     (auto simp: less_Suc_eq_le intro: length_dropWhile_le)

definition plain_text :: "string \<Rightarrow> string" where
  "plain_text h = trim (collapse_spaces (strip_tags h))"

definition abort_message :: string where
  "abort_message = ''This operation was aborted''"

text \<open>The abort timer fires after \<open>timeout\<close> milliseconds unless \<open>fetch\<close> has settled
  before; it is cleared before the body is read.\<close>

definition simpleFetch :: "(string \<Rightarrow> net_reply) \<Rightarrow> string \<Rightarrow> nat \<Rightarrow> simple_result io" where
  "simpleFetch net u timeout =
     try_catch
       (bind (call (Fetch u timeout)
                (case net u of
                   NetFail t msg \<Rightarrow> if t < timeout then Raised msg else Raised abort_message
                 | NetResponse t r \<Rightarrow> if t < timeout then Ok r else Raised abort_message))
          (\<lambda>r. if \<not> ok r
                then ret (failed (''HTTP '' @ show_nat (status r) @ '': '' @ statusText r))
                else bind ([], body r)
                       (\<lambda>h. ret \<lparr>success = True, html = Some h,
                                 text_js = Some (plain_text h), error = None\<rparr>)))
       (\<lambda>msg. ret (failed msg))"

section \<open>The acquisition engine: \<open>crawlWebsite\<close>\<close>

text \<open>\<^verbatim>\<open>html.match(/<title[^>]*>([^<]+)<\/title>/i)\<close>: neither class can run over its
  own delimiter, so the match at one start position is determined; the start positions are
  tried from the left.  Under the flag \<open>i\<close> a Latin-1 code unit matches an ASCII letter of
  the pattern only when it is that letter in either case.\<close>

definition title_at :: "string \<Rightarrow> string option" where
  "title_at s =
     (if prefix ''<title'' (toLowerCase s) then
        (case dropWhile (\<lambda>c. c \<noteq> CHR ''>'') (drop 6 s) of
           [] \<Rightarrow> None
         | _ # r \<Rightarrow>
             (let t = takeWhile (\<lambda>c. c \<noteq> CHR ''<'') r;
                  r' = dropWhile (\<lambda>c. c \<noteq> CHR ''<'') r
              in if t \<noteq> [] \<and> prefix ''</title>'' (toLowerCase r') then Some t else None))
      else None)"

fun find_title :: "string \<Rightarrow> string option" where
  "find_title [] = None"
| "find_title (c # cs) =
     (case title_at (c # cs) of Some t \<Rightarrow> Some t | None \<Rightarrow> find_title cs)"

definition extractTitle :: "string \<Rightarrow> string" where
  "extractTitle h = (case find_title h of Some t \<Rightarrow> trim t | None \<Rightarrow> [])"

definition page_record :: "string \<Rightarrow> string \<Rightarrow> string \<Rightarrow> jsval" where
  "page_record u t h = JObj [(''url'', JStr u), (''title'', JStr t), (''html'', JStr h)]"

text \<open>The object literal \<^verbatim>\<open>{ pages: [], metadata: {}, htmlContent: '' }\<close>.\<close>

definition empty_result :: jsval where
  "empty_result = JObj [(''pages'', JArr []), (''metadata'', JObj []), (''htmlContent'', JStr [])]"

definition hasContactForm :: "string \<Rightarrow> bool" where
  "hasContactForm allHtml =
     (includes_js (toLowerCase allHtml) ''contact'' \<and>
      (includes_js (toLowerCase allHtml) ''form'' \<or>
       includes_js (toLowerCase allHtml) ''submit''))"

definition hasBookingWidget :: "string \<Rightarrow> bool" where
  "hasBookingWidget allHtml =
     (includes_js (toLowerCase allHtml) ''book'' \<and>
      (includes_js (toLowerCase allHtml) ''appointment'' \<or>
       includes_js (toLowerCase allHtml) ''schedule''))"

definition hasChatWidget :: "string \<Rightarrow> bool" where
  "hasChatWidget allHtml =
     (includes_js (toLowerCase allHtml) ''chat'' \<or>
      includes_js (toLowerCase allHtml) ''intercom'' \<or>
      includes_js (toLowerCase allHtml) ''drift'')"

definition buildCrawlResult :: "jsval list \<Rightarrow> string \<Rightarrow> string \<Rightarrow> jsval io" where
  "buildCrawlResult crawledPages allHtml domain =
     bind (emit (Log Info (''Crawled '' @ show_nat (length crawledPages)
                             @ '' page(s) from '' @ domain)))
       (\<lambda>_. ret (JObj
          [(''pages'', JArr crawledPages),
           (''metadata'', JObj
              [(''pageCount'', JNum (int (length crawledPages))),
               (''hasContactForm'', JBool (hasContactForm allHtml)),
               (''hasBookingWidget'', JBool (hasBookingWidget allHtml)),
               (''hasChatWidget'', JBool (hasChatWidget allHtml))]),
           (''htmlContent'', JStr allHtml)]))"

text \<open>What the browser does for one start URL: the outcome of each awaited call of
  \<open>crawlWithPlaywright\<close>.\<close>

record playwright =
  chromium_launch :: "unit attempt"
  browser_newContext :: "unit attempt"
  context_newPage :: "unit attempt"
  page_goto :: "unit attempt"
  page_waitForTimeout :: "unit attempt"
  page_content :: "string attempt"
  page_title :: "string attempt"
  browser_close :: "unit attempt"

text \<open>The environment of the engine: \<open>new URL(startUrl).hostname\<close> (which throws on a
  string that is no URL), the network and the browser.\<close>

record world =
  hostname :: "string \<Rightarrow> string attempt"
  net :: "string \<Rightarrow> net_reply"
  browser :: "string \<Rightarrow> playwright"

definition crawlWithPlaywright :: "world \<Rightarrow> string \<Rightarrow> string \<Rightarrow> nat \<Rightarrow> jsval io" where
  "crawlWithPlaywright w startUrl domain maxPages =
     (let pw = browser w startUrl in
      try_catch
        (bind (call Launch (chromium_launch pw)) (\<lambda>_.
         bind (call NewContext (browser_newContext pw)) (\<lambda>_.
         bind (call NewPage (context_newPage pw)) (\<lambda>_.
         bind (try_finally
                 (try_catch
                    (bind (call (Goto startUrl 15000) (page_goto pw)) (\<lambda>_.
                     bind (call (WaitForTimeout 2000) (page_waitForTimeout pw)) (\<lambda>_.
                     bind (call Content (page_content pw)) (\<lambda>h.
                     bind (call Title (page_title pw)) (\<lambda>t.
                     bind (emit (Log Info (''Playwright successfully crawled '' @ domain))) (\<lambda>_.
                     ret ([page_record startUrl t h], h)))))))
                    (\<lambda>msg.
                     bind (emit (Log Warning (''Playwright page error for '' @ domain
                                               @ '': '' @ msg))) (\<lambda>_.
                     ret ([], []))))
                 (call Close (browser_close pw)))
           (\<lambda>(crawledPages, allHtml).
              if length crawledPages > 0
              then buildCrawlResult crawledPages allHtml domain
              else ret empty_result)))))
        (\<lambda>msg.
           bind (emit (Log Error (''Playwright error for '' @ domain @ '': '' @ msg))) (\<lambda>_.
           ret empty_result)))"

record options =
  maxWebsitePages :: "nat option"

text \<open>\<^verbatim>\<open>options?.enrichment?.maxWebsitePages || 10\<close>: a missing or zero bound is 10.\<close>

definition max_pages :: "options \<Rightarrow> nat" where
  "max_pages opts =
     (case maxWebsitePages opts of None \<Rightarrow> 10 | Some n \<Rightarrow> if n = 0 then 10 else n)"

text \<open>\<^verbatim>\<open>websiteUrl.startsWith('http') ? websiteUrl : `https://${websiteUrl}`\<close>\<close>

definition start_url :: "string \<Rightarrow> string" where
  "start_url u = (if startsWith u ''http'' then u else ''https://'' @ u)"

definition isBlocked :: "string \<Rightarrow> bool" where
  "isBlocked h =
     (includes_js h ''403 Forbidden'' \<or>
      includes_js h ''Access Denied'' \<or>
      includes_js h ''captcha'' \<or>
      includes_js h ''Cloudflare'' \<or>
      length h < 5000)"

text \<open>The argument \<open>websiteUrl\<close> is a string or missing (\<open>None\<close>); both the missing and
  the empty string are falsy.\<close>

definition crawlWebsite :: "world \<Rightarrow> string option \<Rightarrow> options \<Rightarrow> jsval io" where
  "crawlWebsite w websiteUrl opts =
     (case websiteUrl of
        None \<Rightarrow> ret empty_result
      | Some u \<Rightarrow>
          if u = [] then ret empty_result
          else
            (let maxPages = max_pages opts
             in try_catch
               (let startUrl = start_url u in
                bind ([], hostname w startUrl) (\<lambda>domain.
                bind (emit (Log Info (''Crawling website: '' @ domain))) (\<lambda>_.
                bind (emit (Log Debug (''Trying simple fetch for '' @ domain))) (\<lambda>_.
                bind (simpleFetch (net w) startUrl 10000) (\<lambda>simpleResult.
                let fallback =
                      bind (emit (Log Info (''Using Playwright for '' @ domain))) (\<lambda>_.
                      crawlWithPlaywright w startUrl domain maxPages)
                in
                if success simpleResult \<and> html_str simpleResult \<noteq> []
                   \<and> length (html_str simpleResult) > 1000
                then
                  (if \<not> isBlocked (html_str simpleResult) then
                     bind (emit (Log Info (''Simple fetch succeeded for '' @ domain))) (\<lambda>_.
                     case text_js simpleResult of
                       Some allHtml \<Rightarrow>
                         buildCrawlResult
                           [page_record startUrl (extractTitle (html_str simpleResult))
                              (html_str simpleResult)]
                           allHtml domain
                     | None \<Rightarrow>
                         ([], Raised ''Cannot read properties of undefined (reading toLowerCase)''))
                   else
                     bind (emit (Log Info (''Simple fetch blocked for '' @ domain
                                            @ '', trying Playwright''))) (\<lambda>_.
                     fallback))
                else
                  bind (emit (Log Debug (''Simple fetch failed for '' @ domain @ '': '' @
                          (case error simpleResult of
                             Some e \<Rightarrow> if e = [] then ''No content'' else e
                           | None \<Rightarrow> ''No content'')))) (\<lambda>_.
                  fallback))))))
               (\<lambda>msg.
                  bind (emit (Log Error (''Website crawl failed for '' @ u @ '': '' @ msg))) (\<lambda>_.
                  ret empty_result))))"

section \<open>The external crawler: \<open>Crawl4AIClient.crawlUrl\<close>\<close>





text \<open>A value inside a template string.\<close>

fun show_int :: "int \<Rightarrow> string" where
  "show_int n = (if n < 0 then CHR ''-'' # show_nat (nat (- n)) else show_nat (nat n))"

fun js_string :: "jsval \<Rightarrow> string"
  and js_join :: "jsval list \<Rightarrow> string" where
  "js_string JUndefined = ''undefined''"
| "js_string JNull = ''null''"
| "js_string (JBool b) = (if b then ''true'' else ''false'')"
| "js_string (JNum n) = show_int n"
| "js_string (JStr s) = s"
| "js_string (JArr vs) = js_join vs"
| "js_string (JObj _) = ''[object Object]''"
| "js_join [] = []"
| "js_join [v] = (case v of JUndefined \<Rightarrow> [] | JNull \<Rightarrow> [] | _ \<Rightarrow> js_string v)"
| "js_join (v # v' # vs) =
     (case v of JUndefined \<Rightarrow> [] | JNull \<Rightarrow> [] | _ \<Rightarrow> js_string v) @ '','' @ js_join (v' # vs)"







section \<open>The pipeline: enrichment units and outreach generation\<close>

text \<open>The part of a lead record that the enrichment and the generation stage read or
  write.  \<open>lead.business.name\<close> is \<open>business_name\<close>, \<open>lead.online.website\<close> is
  \<open>online_website\<close>, and so on; a property that may be missing is an option.
  \<open>lead.contacts\<close> and \<open>lead.signals\<close> are objects, given by their properties, or missing
  (the generation stage reads both with \<open>?.\<close>); the values of their properties
  (\<open>emails\<close>, \<open>phones\<close>, \<open>websiteSignals\<close>, \<open>techSignals\<close>) are arbitrary, and a property
  that is not in the list is missing.\<close>

record lead =
  business_name :: string
  online_website :: "string option"
  online_domain :: "string option"
  online_socials :: "jsval option"
  contacts :: "(string \<times> jsval) list option"
  signals :: "(string \<times> jsval) list option"
  ai :: "jsval option"

text \<open>The four extractors are modules of the repository outside the source at hand; they
  are parameters.  Each returns its value or throws.  What \<open>extractEmails\<close> and
  \<open>extractPhones\<close> return is an array, or \<open>undefined\<close> (\<open>None\<close>); what the other two return is
  any value.\<close>

record extractors =
  extractEmails :: "string \<Rightarrow> string option \<Rightarrow> jsval list option attempt"
  extractPhones :: "string \<Rightarrow> jsval list option attempt"
  extractSocials :: "string \<Rightarrow> jsval attempt"
  detectTechSignals :: "string \<Rightarrow> jsval attempt"

text \<open>Assigning to a property of an object: a property that is there keeps its place, a new
  one goes to the end.\<close>

fun set_prop :: "(string \<times> jsval) list \<Rightarrow> string \<Rightarrow> jsval \<Rightarrow> (string \<times> jsval) list" where
  "set_prop [] k v = [(k, v)]"
| "set_prop ((k', v') # kvs) k v =
     (if k' = k then (k, v) # kvs else (k', v') # set_prop kvs k v)"

text \<open>What a spread \<^verbatim>\<open>...x\<close> takes from \<open>x\<close>: the elements of an array, the characters of a
  string; no other value is iterable.  \<open>src\<close> is the text of the expression, which the
  message of the \<open>TypeError\<close> quotes.\<close>

fun elements :: "jsval \<Rightarrow> jsval list option" where
  "elements (JArr vs) = Some vs"
| "elements (JStr s) = Some (map (\<lambda>c. JStr [c]) s)"
| "elements _ = None"

definition spread :: "string \<Rightarrow> jsval \<Rightarrow> jsval list attempt" where
  "spread src x =
     (case elements x of None \<Rightarrow> Raised (src @ '' is not iterable'') | Some vs \<Rightarrow> Ok vs)"

text \<open>\<^verbatim>\<open>xs.length > 0\<close> for what \<open>extractEmails\<close> or \<open>extractPhones\<close> returned.\<close>

definition has_items :: "jsval list option \<Rightarrow> bool attempt" where
  "has_items xs =
     (case xs of
        None \<Rightarrow> Raised ''Cannot read properties of undefined (reading length)''
      | Some es \<Rightarrow> Ok (length es > 0))"

text \<open>\<^verbatim>\<open>if (xs.length > 0) { lead.contacts.k = [...lead.contacts.k, ...xs]; }\<close> for \<open>k\<close>
  one of \<open>emails\<close> and \<open>phones\<close>.\<close>

definition append_contacts :: "lead \<Rightarrow> string \<Rightarrow> jsval list option \<Rightarrow> lead attempt" where
  "append_contacts l k xs =
     (case has_items xs of
        Raised msg \<Rightarrow> Raised msg
      | Ok some \<Rightarrow>
          if some then
            (case contacts l of
               None \<Rightarrow> Raised (''Cannot read properties of undefined (reading '' @ k @ '')'')
             | Some cs \<Rightarrow>
                 (case spread (''lead.contacts.'' @ k)
                         (case map_of cs k of None \<Rightarrow> JUndefined | Some v \<Rightarrow> v) of
                    Raised msg \<Rightarrow> Raised msg
                  | Ok old \<Rightarrow>
                      Ok (l\<lparr>contacts :=
                            Some (set_prop cs k (JArr (old @ (case xs of None \<Rightarrow> [] | Some es \<Rightarrow> es))))\<rparr>)))
          else Ok l)"

text \<open>\<^verbatim>\<open>lead.signals.k = v\<close>, after \<open>v\<close> has been evaluated.\<close>

definition set_signal :: "lead \<Rightarrow> string \<Rightarrow> jsval \<Rightarrow> lead attempt" where
  "set_signal l k v =
     (case signals l of
        None \<Rightarrow> Raised (''Cannot set properties of undefined (setting '' @ k @ '')'')
      | Some sg \<Rightarrow> Ok (l\<lparr>signals := Some (set_prop sg k v)\<rparr>))"

text \<open>\<open>x || false\<close>\<close>

definition or_false :: "jsval \<Rightarrow> jsval" where
  "or_false x = (if truthy x then x else JBool False)"

text \<open>\<open>Object.values(x)\<close>: a \<open>TypeError\<close> on \<open>undefined\<close> and \<open>null\<close>, the property
  values of an object, the elements of an array, the characters of a string, nothing for a
  number or a boolean.\<close>

fun object_values :: "jsval \<Rightarrow> jsval list attempt" where
  "object_values JUndefined = Raised ''Cannot convert undefined or null to object''"
| "object_values JNull = Raised ''Cannot convert undefined or null to object''"
| "object_values (JObj kvs) = Ok (map snd kvs)"
| "object_values (JArr vs) = Ok vs"
| "object_values (JStr s) = Ok (map (\<lambda>c. JStr [c]) s)"
| "object_values _ = Ok []"

text \<open>The object literal assigned to \<open>lead.signals.websiteSignals\<close>; its property values
  are evaluated in order and each may throw.\<close>

definition website_signals :: "lead \<Rightarrow> jsval \<Rightarrow> jsval attempt" where
  "website_signals l crawlResult =
     (case online_website l of
        None \<Rightarrow> Raised ''Cannot read properties of undefined (reading startsWith)''
      | Some u \<Rightarrow>
          (case get_prop crawlResult ''metadata'' of
             Raised e \<Rightarrow> Raised e
           | Ok m \<Rightarrow>
               (case get_prop m ''hasContactForm'' of
                  Raised e \<Rightarrow> Raised e
                | Ok cf \<Rightarrow>
                    (case get_prop m ''hasBookingWidget'' of
                       Raised e \<Rightarrow> Raised e
                     | Ok bw \<Rightarrow>
                         (case get_prop m ''hasChatWidget'' of
                            Raised e \<Rightarrow> Raised e
                          | Ok cw \<Rightarrow>
                              Ok (JObj [(''hasHttps'', JBool (startsWith u ''https'')),
                                        (''hasContactForm'', or_false cf),
                                        (''hasBookingWidget'', or_false bw),
                                        (''hasChatWidget'', or_false cw)]))))))"

text \<open>One enrichment unit: the body of the function mapped over a batch.  It returns its
  trace, the record as the unit leaves it, and whether it counted the record as enriched.
  The record is assigned to step by step (\<open>l1\<close> to \<open>l5\<close>); an exception ends the unit in
  its \<open>catch\<close>, which logs the warning and undoes nothing: the record stays as it is at
  that point.\<close>

definition enrich_unit :: "world \<Rightarrow> extractors \<Rightarrow> options \<Rightarrow> lead \<Rightarrow> event list \<times> lead \<times> bool" where
  "enrich_unit w ex opts l0 =
     (let warn = (\<lambda>msg. Log Warning (''Enrichment failed for '' @ business_name l0 @ '': '' @ msg));
          t0 = [Log Info (''Enriching: '' @ business_name l0)];
          t1 = trace (crawlWebsite w (online_website l0) opts)
      in case outcome (crawlWebsite w (online_website l0) opts) of
           Raised msg \<Rightarrow> (t0 @ t1 @ [warn msg], l0, False)
         | Ok crawlResult \<Rightarrow>
      (case get_prop crawlResult ''htmlContent'' of
           Raised msg \<Rightarrow> (t0 @ t1 @ [warn msg], l0, False)
         | Ok htmlContent \<Rightarrow>
      if \<not> truthy htmlContent then (t0 @ t1, l0, False)
      else
      (case extractEmails ex (js_string htmlContent) (online_domain l0) of
           Raised msg \<Rightarrow> (t0 @ t1 @ [warn msg], l0, False)
         | Ok emails \<Rightarrow>
      (case extractPhones ex (js_string htmlContent) of
           Raised msg \<Rightarrow> (t0 @ t1 @ [warn msg], l0, False)
         | Ok phones \<Rightarrow>
      (case extractSocials ex (js_string htmlContent) of
           Raised msg \<Rightarrow> (t0 @ t1 @ [warn msg], l0, False)
         | Ok socials \<Rightarrow>
      (case detectTechSignals ex (js_string htmlContent) of
           Raised msg \<Rightarrow> (t0 @ t1 @ [warn msg], l0, False)
         | Ok techSignals \<Rightarrow>
      (case append_contacts l0 ''emails'' emails of
           Raised msg \<Rightarrow> (t0 @ t1 @ [warn msg], l0, False)
         | Ok l1 \<Rightarrow>
      (case append_contacts l1 ''phones'' phones of
           Raised msg \<Rightarrow> (t0 @ t1 @ [warn msg], l1, False)
         | Ok l2 \<Rightarrow>
      (let l3 = l2\<lparr>online_socials := Some socials\<rparr>
       in case website_signals l3 crawlResult of
            Raised msg \<Rightarrow> (t0 @ t1 @ [warn msg], l3, False)
          | Ok ws \<Rightarrow>
      (case set_signal l3 ''websiteSignals'' ws of
           Raised msg \<Rightarrow> (t0 @ t1 @ [warn msg], l3, False)
         | Ok l4 \<Rightarrow>
      (case set_signal l4 ''techSignals'' techSignals of
           Raised msg \<Rightarrow> (t0 @ t1 @ [warn msg], l4, False)
         | Ok l5 \<Rightarrow>
      (case has_items emails of
           Raised msg \<Rightarrow> (t0 @ t1 @ [warn msg], l5, False)
         | Ok some_emails \<Rightarrow>
      if some_emails then (t0 @ t1, l5, True)
      else
      (case has_items phones of
           Raised msg \<Rightarrow> (t0 @ t1 @ [warn msg], l5, False)
         | Ok some_phones \<Rightarrow>
      if some_phones then (t0 @ t1, l5, True)
      else
      (case object_values socials of
           Raised msg \<Rightarrow> (t0 @ t1 @ [warn msg], l5, False)
         | Ok vs \<Rightarrow> (t0 @ t1, l5, list_ex truthy vs)))))))))))))))"

subsection \<open>The enrichment loop\<close>

text \<open>The components of what a unit returns.\<close>

definition unit_trace :: "event list \<times> lead \<times> bool \<Rightarrow> event list" where
  "unit_trace x = fst x"

definition unit_lead :: "event list \<times> lead \<times> bool \<Rightarrow> lead" where
  "unit_lead x = fst (snd x)"

text \<open>The events of a unit, in order, and the record as the unit leaves it.\<close>

definition unit_events :: "world \<Rightarrow> extractors \<Rightarrow> options \<Rightarrow> lead \<Rightarrow> event list" where
  "unit_events w ex opts l = unit_trace (enrich_unit w ex opts l)"

definition unit_result :: "world \<Rightarrow> extractors \<Rightarrow> options \<Rightarrow> lead \<Rightarrow> lead" where
  "unit_result w ex opts l = unit_lead (enrich_unit w ex opts l)"

text \<open>\<^verbatim>\<open>const batchSize = 2\<close>\<close>

definition batchSize :: nat where
  "batchSize = 2"

text \<open>The enrichment loop of \<open>main\<close> as a transition system.  The units of a batch are the
  promises that \<open>Promise.all\<close> waits for; each is the list of the events it still has to
  perform, and any unit that has events left may perform its next one, so every
  interleaving of the units of a batch is a run.  Unit \<open>k\<close> is the unit of the record at
  index \<open>k\<close> of \<open>leadsToEnrich\<close>; it assigns to its own record in its last step.\<close>

datatype actor = Controller | Unit nat

datatype phase = LoopHead | Awaiting | Sleeping | Exit

record controller =
  idx :: nat
  phase :: phase
  tasks :: "event list list"
  recs :: "lead list"
  history :: "(actor \<times> event) list"

definition batch_log :: "nat \<Rightarrow> nat \<Rightarrow> event" where
  "batch_log i n =
     Log Info (''Enriching batch '' @ show_nat (i div batchSize + 1) @ ''/''
               @ show_nat ((n + batchSize - 1) div batchSize) @ '' (''
               @ show_nat (min batchSize (n - i)) @ '' leads in parallel)'')"

text \<open>\<open>start\<close> takes \<^verbatim>\<open>leadsToEnrich.slice(i, i + batchSize)\<close> and starts its units;
  \<open>run\<close> lets one unit perform its next event; \<open>join_sleep\<close> and \<open>join_last\<close> are
  the end of \<open>await Promise.all\<close>, when every unit has finished, with and without more
  records to come; \<open>wake\<close> is the end of the delay of 500 ms and the increment of
  \<open>i\<close>; \<open>exit\<close> leaves the loop.\<close>

inductive step :: "world \<Rightarrow> extractors \<Rightarrow> options \<Rightarrow> controller \<Rightarrow> controller \<Rightarrow> bool"
  for w :: world and ex :: extractors and opts :: options where
  start:
    "phase s = LoopHead \<Longrightarrow> idx s < length (recs s) \<Longrightarrow>
     step w ex opts s
       (s\<lparr>phase := Awaiting,
          tasks := map (unit_events w ex opts) (take batchSize (drop (idx s) (recs s))),
          history := history s @ [(Controller, batch_log (idx s) (length (recs s)))]\<rparr>)"
| run:
    "phase s = Awaiting \<Longrightarrow> j < length (tasks s) \<Longrightarrow> tasks s ! j = e # es \<Longrightarrow>
     step w ex opts s
       (s\<lparr>tasks := (tasks s)[j := es],
          recs := (if es = []
                   then (recs s)[idx s + j := unit_result w ex opts (recs s ! (idx s + j))]
                   else recs s),
          history := history s @ [(Unit (idx s + j), e)]\<rparr>)"
| join_sleep:
    "phase s = Awaiting \<Longrightarrow> list_all (\<lambda>es. es = []) (tasks s) \<Longrightarrow>
     idx s + batchSize < length (recs s) \<Longrightarrow>
     step w ex opts s (s\<lparr>phase := Sleeping\<rparr>)"
| join_last:
    "phase s = Awaiting \<Longrightarrow> list_all (\<lambda>es. es = []) (tasks s) \<Longrightarrow>
     \<not> idx s + batchSize < length (recs s) \<Longrightarrow>
     step w ex opts s (s\<lparr>idx := idx s + batchSize, phase := LoopHead, tasks := []\<rparr>)"
| wake:
    "phase s = Sleeping \<Longrightarrow>
     step w ex opts s
       (s\<lparr>idx := idx s + batchSize, phase := LoopHead, tasks := [],
          history := history s @ [(Controller, Sleep 500)]\<rparr>)"
| exit:
    "phase s = LoopHead \<Longrightarrow> length (recs s) \<le> idx s \<Longrightarrow>
     step w ex opts s (s\<lparr>phase := Exit\<rparr>)"

definition init :: "lead list \<Rightarrow> controller" where
  "init leads = \<lparr>idx = 0, phase = LoopHead, tasks = [], recs = leads, history = []\<rparr>"

inductive reach :: "world \<Rightarrow> extractors \<Rightarrow> options \<Rightarrow> lead list \<Rightarrow> controller \<Rightarrow> bool"
  for w :: world and ex :: extractors and opts :: options and leads :: "lead list" where
  reach_init: "reach w ex opts leads (init leads)"
| reach_step: "reach w ex opts leads s \<Longrightarrow> step w ex opts s s' \<Longrightarrow> reach w ex opts leads s'"

subsection \<open>Outreach generation\<close>














section \<open>Notions used to state the properties\<close>

text \<open>The direct fetch is used as the result exactly when the nested tests of
  \<open>crawlWebsite\<close> all pass.\<close>

definition usable :: "simple_result \<Rightarrow> bool" where
  "usable r =
     (success r \<and> html_str r \<noteq> [] \<and> length (html_str r) > 1000 \<and> \<not> isBlocked (html_str r))"

text \<open>The line \<open>crawlWebsite\<close> logs before it falls back to the browser.\<close>

definition escalation_log :: "simple_result \<Rightarrow> string \<Rightarrow> event" where
  "escalation_log r domain =
     (if success r \<and> html_str r \<noteq> [] \<and> length (html_str r) > 1000
      then Log Info (''Simple fetch blocked for '' @ domain @ '', trying Playwright'')
      else Log Debug (''Simple fetch failed for '' @ domain @ '': '' @
             (case error r of Some e \<Rightarrow> if e = [] then ''No content'' else e
              | None \<Rightarrow> ''No content'')))"

text \<open>The time after which the network settles a request, in milliseconds.\<close>

fun latency :: "net_reply \<Rightarrow> nat" where
  "latency (NetFail t _) = t"
| "latency (NetResponse t _) = t"

text \<open>Every awaited browser call returns.\<close>

definition browser_all_ok :: "playwright \<Rightarrow> bool" where
  "browser_all_ok pw =
     (returned (chromium_launch pw) \<and> returned (browser_newContext pw) \<and>
      returned (context_newPage pw) \<and> returned (page_goto pw) \<and>
      returned (page_waitForTimeout pw) \<and> returned (page_content pw) \<and>
      returned (page_title pw) \<and> returned (browser_close pw))"

text \<open>The calls of the browser tier.\<close>

fun is_browser_event :: "event \<Rightarrow> bool" where
  "is_browser_event Launch = True"
| "is_browser_event NewContext = True"
| "is_browser_event NewPage = True"
| "is_browser_event (Goto _ _) = True"
| "is_browser_event (WaitForTimeout _) = True"
| "is_browser_event Content = True"
| "is_browser_event Title = True"
| "is_browser_event Close = True"
| "is_browser_event _ = False"

text \<open>Reading a property of the value a call returned, and a property of its
  \<open>metadata\<close>.\<close>

definition result_prop :: "jsval attempt \<Rightarrow> string \<Rightarrow> jsval attempt" where
  "result_prop a k = (case a of Raised e \<Rightarrow> Raised e | Ok v \<Rightarrow> get_prop v k)"

definition metadata_prop :: "jsval attempt \<Rightarrow> string \<Rightarrow> jsval attempt" where
  "metadata_prop a k = result_prop (result_prop a ''metadata'') k"

text \<open>An error that no tier recovers from: the start URL does not parse, or the direct
  fetch is not usable and some call of the browser tier throws.\<close>

definition engine_error :: "world \<Rightarrow> string option \<Rightarrow> bool" where
  "engine_error w url =
     (case url of
        None \<Rightarrow> False
      | Some u \<Rightarrow>
          u \<noteq> [] \<and>
          (case hostname w (start_url u) of
             Raised _ \<Rightarrow> True
           | Ok _ \<Rightarrow>
               (case outcome (simpleFetch (net w) (start_url u) 10000) of
                  Raised _ \<Rightarrow> True
                | Ok r \<Rightarrow> \<not> usable r \<and> \<not> browser_all_ok (browser w (start_url u)))))"






subsection \<open>Concrete sites\<close>

text \<open>Pages padded with plain text to a given length: one that has its markers in the
  text, one that has them in the markup only, and one that a block page answers.  Browsers
  whose calls all return, whose navigation times out, and whose context cannot be made.\<close>

definition filler :: "nat \<Rightarrow> string" where
  "filler n = replicate n (CHR ''x'')"

definition page_contact :: string where
  "page_contact = ''<p>contact-submit</p>'' @ filler 7979"


definition page_denied :: string where
  "page_denied = ''Access Denied'' @ filler 2987"

definition browser_fine :: playwright where
  "browser_fine =
     \<lparr>chromium_launch = Ok (), browser_newContext = Ok (), context_newPage = Ok (),
      page_goto = Ok (), page_waitForTimeout = Ok (),
      page_content = Ok ''<html><head><title>Acme</title></head><body>chat</body></html>'',
      page_title = Ok ''Acme'', browser_close = Ok ()\<rparr>"

definition browser_nav_timeout :: playwright where
  "browser_nav_timeout = browser_fine\<lparr>page_goto := Raised ''page.goto: Timeout 15000ms exceeded.''\<rparr>"

definition browser_no_context :: playwright where
  "browser_no_context = browser_fine\<lparr>browser_newContext := Raised ''Target closed''\<rparr>"

text \<open>A site that answers every request in the same way.\<close>

definition site :: "net_reply \<Rightarrow> playwright \<Rightarrow> world" where
  "site reply pw =
     \<lparr>hostname = (\<lambda>u. Ok ''acme.test''), net = (\<lambda>u. reply), browser = (\<lambda>u. pw)\<rparr>"

definition serves :: "string \<Rightarrow> net_reply" where
  "serves h = NetResponse 120 \<lparr>status = 200, statusText = ''OK'', body = Ok h\<rparr>"

definition no_options :: options where
  "no_options = \<lparr>maxWebsitePages = None\<rparr>"

subsection \<open>A concrete crawler process\<close>









subsection \<open>Enrichment units\<close>


















subsection \<open>Generation calls\<close>















subsection \<open>The enrichment loop\<close>







section \<open>Properties\<close>

lemmas io_defs = ret_def emit_def call_def bind_def try_catch_def try_finally_def

subsection \<open>Strings and filler text\<close>

lemma sublist_snoc_other:
  assumes "p \<noteq> []" "c \<notin> set p" "sublist p (xs @ [c])"
  shows "sublist p xs"
proof -
  from assms(3) obtain ps ss where eq: "xs @ [c] = ps @ p @ ss"
    by (auto simp: sublist_def)
  show ?thesis
  proof (cases ss rule: rev_cases)
    case Nil
    with eq have "xs @ [c] = ps @ p" by simp
    with assms(1) have "last p = c"
      by (metis last_appendR last_snoc)
    with assms(1,2) show ?thesis
      using last_in_set by blast
  next
    case (snoc ss' d)
    with eq have "xs @ [c] = (ps @ p @ ss') @ [d]" by simp
    then have "xs = ps @ p @ ss'" by simp
    then show ?thesis by (auto simp: sublist_def)
  qed
qed

lemma sublist_append_replicate:
  assumes "p \<noteq> []" "c \<notin> set p"
  shows "sublist p (xs @ replicate n c) = sublist p xs"
proof (induction n)
  case 0
  then show ?case by simp
next
  case (Suc n)
  have "sublist p (xs @ replicate (Suc n) c) = sublist p ((xs @ replicate n c) @ [c])"
    by (simp add: replicate_append_same)
  also have "\<dots> = sublist p (xs @ replicate n c)"
    using sublist_snoc_other [OF assms, of "xs @ replicate n c"]
    by (metis append.assoc sublist_order.order.trans sublist_appendI append_Nil2 sublist_append_rightI)
  finally show ?case using Suc by simp
qed

lemma includes_filler:
  assumes "p \<noteq> []" "CHR ''x'' \<notin> set p"
  shows "includes_js (xs @ filler n) p = includes_js xs p"
  using sublist_append_replicate [OF assms] by (simp add: includes_js_def filler_def)

lemma sublist_filler:
  assumes "p \<noteq> []" "CHR ''x'' \<notin> set p"
  shows "sublist p (filler n) = False"
  using sublist_append_replicate [OF assms, of "[]" n] assms(1) by (simp add: filler_def)

lemma lower_char_x: "lower_char (CHR ''x'') = CHR ''x''"
  by (simp add: lower_char_def)

lemma toLowerCase_filler: "toLowerCase (xs @ filler n) = toLowerCase xs @ filler n"
  by (simp add: toLowerCase_def filler_def lower_char_x)

lemma map_lower_filler: "map lower_char (filler n) = filler n"
  by (simp add: filler_def lower_char_x)

lemma strip_tags_plain: "CHR ''<'' \<notin> set s \<Longrightarrow> strip_tags s = s"
  by (induction s) auto

lemma collapse_spaces_plain: "\<forall>c\<in>set s. \<not> is_space c \<Longrightarrow> collapse_spaces s = s"
  by (induction s) auto

lemma is_space_x: "\<not> is_space (CHR ''x'')"
  by (simp add: is_space_def)

lemma strip_tags_filler: "strip_tags (filler n) = filler n"
  by (rule strip_tags_plain) (simp add: filler_def)

lemma collapse_spaces_filler: "collapse_spaces (filler n) = filler n"
  by (rule collapse_spaces_plain) (simp add: filler_def is_space_x)

lemma filler_empty [simp]: "(filler n = []) = (n = 0)"
  by (simp add: filler_def)

lemma length_filler [simp]: "length (filler n) = n"
  by (simp add: filler_def)

lemma last_filler: "0 < n \<Longrightarrow> last (filler n) = CHR ''x''"
  by (simp add: filler_def)

lemma dropWhile_space_filler: "dropWhile is_space (filler n) = filler n"
  by (cases n) (simp_all add: filler_def is_space_x)

lemma dropWhile_rev_last: "xs \<noteq> [] \<Longrightarrow> \<not> P (last xs) \<Longrightarrow> dropWhile P (rev xs) = rev xs"
  by (cases xs rule: rev_cases) auto

lemma trim_by_last:
  assumes "dropWhile is_space s = ys" "ys \<noteq> []" "\<not> is_space (last ys)"
  shows "trim s = ys"
  using assms by (simp add: trim_def dropWhile_rev_last)

lemma plain_text_page_contact: "plain_text page_contact = ''contact-submit '' @ filler 7979"
proof -
  have s: "strip_tags page_contact = '' contact-submit '' @ filler 7979"
    by (simp add: page_contact_def strip_tags_filler)
  have c: "collapse_spaces ('' contact-submit '' @ filler 7979) = '' contact-submit '' @ filler 7979"
    by (simp add: is_space_def collapse_spaces_filler dropWhile_space_filler)
  have t: "trim ('' contact-submit '' @ filler 7979) = ''contact-submit '' @ filler 7979"
    by (rule trim_by_last) (simp_all add: is_space_def last_filler)
  show ?thesis by (simp only: plain_text_def s c t)
qed


subsection \<open>The tiers\<close>

lemma simpleFetch_trace: "trace (simpleFetch n u t) = [Fetch u t]"
  by (auto simp: simpleFetch_def io_defs trace_def failed_def Let_def
      split: net_reply.splits attempt.splits prod.splits)

lemma simpleFetch_total: "\<exists>r. outcome (simpleFetch n u t) = Ok r"
  by (auto simp: simpleFetch_def io_defs outcome_def failed_def Let_def
      split: net_reply.splits attempt.splits prod.splits)

lemma simpleFetch_eq: "simpleFetch n u t = ([Fetch u t], outcome (simpleFetch n u t))"
  using simpleFetch_trace [of n u t] by (simp add: trace_def outcome_def prod_eq_iff)

lemma simpleFetch_success:
  assumes "outcome (simpleFetch n u t) = Ok r" "success r"
  shows "\<exists>h. r = \<lparr>success = True, html = Some h, text_js = Some (plain_text h), error = None\<rparr>"
  using assms
  by (auto simp: simpleFetch_def io_defs outcome_def failed_def Let_def
      split: net_reply.splits attempt.splits prod.splits if_splits)

lemma simpleFetch_timeout:
  assumes "t \<le> latency (n u)"
  shows "outcome (simpleFetch n u t) = Ok (failed abort_message)"
  using assms
  by (cases "n u") (simp_all add: simpleFetch_def io_defs outcome_def)

lemma simpleFetch_serves:
  assumes "120 < t"
  shows "outcome (simpleFetch (\<lambda>u. serves h) u t) =
    Ok \<lparr>success = True, html = Some h, text_js = Some (plain_text h), error = None\<rparr>"
  using assms by (simp add: simpleFetch_def serves_def io_defs outcome_def ok_def)

lemma crawlWebsite_direct:
  assumes "u \<noteq> []"
    and "hostname w (start_url u) = Ok domain"
    and "outcome (simpleFetch (net w) (start_url u) 10000) = Ok r"
    and "success r" and "html r = Some h"
    and "1000 < length h" and "\<not> isBlocked h"
  shows "crawlWebsite w (Some u) opts =
    ([Log Info (''Crawling website: '' @ domain),
      Log Debug (''Trying simple fetch for '' @ domain),
      Fetch (start_url u) 10000,
      Log Info (''Simple fetch succeeded for '' @ domain),
      Log Info (''Crawled '' @ show_nat 1 @ '' page(s) from '' @ domain)],
     Ok (JObj
       [(''pages'', JArr [page_record (start_url u) (extractTitle h) h]),
        (''metadata'', JObj
           [(''pageCount'', JNum 1),
            (''hasContactForm'', JBool (hasContactForm (plain_text h))),
            (''hasBookingWidget'', JBool (hasBookingWidget (plain_text h))),
            (''hasChatWidget'', JBool (hasChatWidget (plain_text h)))]),
        (''htmlContent'', JStr (plain_text h))]))"
proof -
  from simpleFetch_success [OF assms(3,4)] assms(5)
  have r: "r = \<lparr>success = True, html = Some h, text_js = Some (plain_text h), error = None\<rparr>"
    by auto
  have sf: "simpleFetch (net w) (start_url u) 10000 = ([Fetch (start_url u) 10000], Ok r)"
    using simpleFetch_eq [of "net w" "start_url u" 10000] assms(3) by simp
  from assms(6) have ne: "h \<noteq> []" by auto
  show ?thesis
    using assms(1,2,6,7) ne
    by (simp add: crawlWebsite_def Let_def sf r io_defs html_str_def buildCrawlResult_def)
qed

lemma crawlWithPlaywright_total: "\<exists>r. outcome (crawlWithPlaywright w s d m) = Ok r"
  by (simp add: crawlWithPlaywright_def Let_def io_defs outcome_def buildCrawlResult_def
      split: attempt.split prod.split)

lemma crawlWithPlaywright_launch_once:
  "count_list (trace (crawlWithPlaywright w s d m)) Launch = 1"
  by (simp add: crawlWithPlaywright_def Let_def io_defs trace_def buildCrawlResult_def
      split: attempt.split prod.split)

lemma returned_iff: "returned a = (\<exists>x. a = Ok x)"
  by (cases a) auto

lemma crawlWithPlaywright_failure:
  assumes "\<not> browser_all_ok (browser w s)"
  shows "outcome (crawlWithPlaywright w s d m) = Ok empty_result"
  using assms
  by (auto simp: crawlWithPlaywright_def Let_def io_defs outcome_def buildCrawlResult_def
      browser_all_ok_def split: attempt.split prod.split)

lemma crawlWebsite_fallback:
  assumes "u \<noteq> []"
    and "hostname w (start_url u) = Ok domain"
    and "outcome (simpleFetch (net w) (start_url u) 10000) = Ok r"
    and "\<not> usable r"
  shows "crawlWebsite w (Some u) opts =
    ([Log Info (''Crawling website: '' @ domain),
      Log Debug (''Trying simple fetch for '' @ domain),
      Fetch (start_url u) 10000, escalation_log r domain,
      Log Info (''Using Playwright for '' @ domain)]
       @ trace (crawlWithPlaywright w (start_url u) domain (max_pages opts)),
     outcome (crawlWithPlaywright w (start_url u) domain (max_pages opts)))"
proof -
  have sf: "simpleFetch (net w) (start_url u) 10000 = ([Fetch (start_url u) 10000], Ok r)"
    using simpleFetch_eq [of "net w" "start_url u" 10000] assms(3) by simp
  obtain t x where cw: "crawlWithPlaywright w (start_url u) domain (max_pages opts) = (t, Ok x)"
    using crawlWithPlaywright_total [of w "start_url u" domain "max_pages opts"]
    by (cases "crawlWithPlaywright w (start_url u) domain (max_pages opts)")
       (auto simp: outcome_def)
  show ?thesis
  proof (cases "success r \<and> html_str r \<noteq> [] \<and> length (html_str r) > 1000")
    case True
    with assms(4) have "isBlocked (html_str r)" by (simp add: usable_def)
    with True assms(1,2) show ?thesis
      by (simp add: crawlWebsite_def Let_def sf io_defs cw trace_def outcome_def
          escalation_log_def)
  next
    case False
    from assms(1,2) show ?thesis
      by (simp add: crawlWebsite_def Let_def sf io_defs cw trace_def outcome_def
          escalation_log_def False)
  qed
qed

lemma crawlWebsite_bad_url:
  assumes "u \<noteq> []" and "hostname w (start_url u) = Raised msg"
  shows "crawlWebsite w (Some u) opts =
     ([Log Error (''Website crawl failed for '' @ u @ '': '' @ msg)], Ok empty_result)"
  using assms by (simp add: crawlWebsite_def Let_def io_defs)

lemma not_blocked_page_contact: "\<not> isBlocked page_contact"
  by (simp add: isBlocked_def page_contact_def includes_js_def sublist_Cons_right sublist_filler)


lemma flags_page_contact:
  "hasContactForm (plain_text page_contact)"
  "\<not> hasBookingWidget (plain_text page_contact)"
  "\<not> hasChatWidget (plain_text page_contact)"
  by (simp_all add: plain_text_page_contact hasContactForm_def hasBookingWidget_def
        hasChatWidget_def includes_js_def sublist_Cons_right toLowerCase_def lower_char_def
        map_lower_filler sublist_filler)

lemma usable_direct:
  assumes "outcome (simpleFetch n u t) = Ok r" "usable r"
  shows "\<exists>h. html r = Some h \<and> success r \<and> 1000 < length h \<and> \<not> isBlocked h"
proof -
  from assms(2) have s: "success r" by (simp add: usable_def)
  from simpleFetch_success [OF assms(1) s] obtain h where
    "r = \<lparr>success = True, html = Some h, text_js = Some (plain_text h), error = None\<rparr>" ..
  with assms(2) show ?thesis by (simp add: usable_def html_str_def)
qed

lemma crawlWithPlaywright_shape:
  "outcome (crawlWithPlaywright w s d m) = Ok empty_result \<or>
   (\<exists>ps c. outcome (crawlWithPlaywright w s d m) = outcome (buildCrawlResult ps c d))"
  by (simp add: crawlWithPlaywright_def Let_def io_defs outcome_def buildCrawlResult_def
      split: attempt.split prod.split)

lemma buildCrawlResult_total: "\<exists>r. outcome (buildCrawlResult ps a d) = Ok r"
  by (simp add: buildCrawlResult_def io_defs outcome_def)

lemma crawlWebsite_shape:
  "outcome (crawlWebsite w url opts) = Ok empty_result \<or>
   (\<exists>ps c d. outcome (crawlWebsite w url opts) = outcome (buildCrawlResult ps c d))"
proof (cases url)
  case None
  then show ?thesis by (simp add: crawlWebsite_def io_defs outcome_def)
next
  case (Some u)
  show ?thesis
  proof (cases "u = []")
    case True
    with Some show ?thesis by (simp add: crawlWebsite_def io_defs outcome_def)
  next
    case ne: False
    show ?thesis
    proof (cases "hostname w (start_url u)")
      case (Raised msg)
      with ne Some show ?thesis by (simp add: crawlWebsite_bad_url outcome_def)
    next
      case (Ok domain)
      obtain r where r: "outcome (simpleFetch (net w) (start_url u) 10000) = Ok r"
        using simpleFetch_total by blast
      show ?thesis
      proof (cases "usable r")
        case True
        from usable_direct [OF r True] obtain h where
          h: "html r = Some h" "success r" "1000 < length h" "\<not> isBlocked h" by blast
        have "outcome (crawlWebsite w (Some u) opts) =
              outcome (buildCrawlResult [page_record (start_url u) (extractTitle h) h]
                         (plain_text h) domain)"
          by (simp add: crawlWebsite_direct [OF ne Ok r h(2) h(1) h(3) h(4)] outcome_def
              buildCrawlResult_def io_defs)
        with Some show ?thesis by blast
      next
        case False
        from crawlWebsite_fallback [OF ne Ok r False, of opts]
        have "outcome (crawlWebsite w (Some u) opts) =
              outcome (crawlWithPlaywright w (start_url u) domain (max_pages opts))"
          by (simp add: outcome_def)
        with Some crawlWithPlaywright_shape [of w "start_url u" domain "max_pages opts"]
        show ?thesis by auto
      qed
    qed
  qed
qed

lemma crawlWebsite_total: "\<exists>r. outcome (crawlWebsite w url opts) = Ok r"
  using crawlWebsite_shape [of w url opts] buildCrawlResult_total by metis

text \<open>
  \<^bold>\<open>C10.\<close> For a missing and for an empty \<open>websiteUrl\<close>, \<open>crawlWebsite\<close> returns the
  object \<^verbatim>\<open>{pages: [], metadata: {}, htmlContent: ''}\<close> at once: its trace is empty, so no
  fetch was made, no browser was launched and nothing was logged.
\<close>

theorem crawlWebsite_falsy_url:
  "crawlWebsite w None opts =
     ([], Ok (JObj [(''pages'', JArr []), (''metadata'', JObj []), (''htmlContent'', JStr [])])) \<and>
   crawlWebsite w (Some []) opts =
     ([], Ok (JObj [(''pages'', JArr []), (''metadata'', JObj []), (''htmlContent'', JStr [])]))"
  by (simp add: crawlWebsite_def ret_def empty_result_def)

text \<open>
  \<^bold>\<open>C1.\<close> When the direct fetch returns \<open>success = true\<close> with content of at least 5000
  code units that contains none of the four block-page markers, \<open>crawlWebsite\<close> returns
  the one-page result built from that content alone (its URL, its title, its markup and its
  plain text), and no call of the browser tier occurs in the trace.  The start URL is one
  that \<open>new URL\<close> accepts: otherwise the direct fetch is never made.
\<close>

theorem crawlWebsite_tier_skip:
  assumes "u \<noteq> []"
    and "hostname w (start_url u) = Ok domain"
    and "outcome (simpleFetch (net w) (start_url u) 10000) = Ok r"
    and "success r" and "html r = Some h"
    and "5000 \<le> length h"
    and "\<not> includes_js h ''403 Forbidden''" and "\<not> includes_js h ''Access Denied''"
    and "\<not> includes_js h ''captcha''" and "\<not> includes_js h ''Cloudflare''"
  shows "outcome (crawlWebsite w (Some u) opts) =
     Ok (JObj
       [(''pages'', JArr [page_record (start_url u) (extractTitle h) h]),
        (''metadata'', JObj
           [(''pageCount'', JNum 1),
            (''hasContactForm'', JBool (hasContactForm (plain_text h))),
            (''hasBookingWidget'', JBool (hasBookingWidget (plain_text h))),
            (''hasChatWidget'', JBool (hasChatWidget (plain_text h)))]),
        (''htmlContent'', JStr (plain_text h))]) \<and>
     \<not> list_ex is_browser_event (trace (crawlWebsite w (Some u) opts))"
proof -
  from assms(6-10) have nb: "\<not> isBlocked h" and len: "1000 < length h"
    by (simp_all add: isBlocked_def)
  show ?thesis
    by (simp add: crawlWebsite_direct [OF assms(1-5) len nb] outcome_def trace_def)
qed

theorem crawlWebsite_tier_skip_witness:
  "outcome (crawlWebsite (site (serves page_contact) browser_fine) (Some ''acme.test'') no_options) =
     Ok (JObj
       [(''pages'', JArr [page_record ''https://acme.test'' (extractTitle page_contact) page_contact]),
        (''metadata'', JObj
           [(''pageCount'', JNum 1),
            (''hasContactForm'', JBool True),
            (''hasBookingWidget'', JBool False),
            (''hasChatWidget'', JBool False)]),
        (''htmlContent'', JStr (''contact-submit '' @ filler 7979))]) \<and>
     \<not> list_ex is_browser_event
        (trace (crawlWebsite (site (serves page_contact) browser_fine) (Some ''acme.test'') no_options))"
proof -
  let ?w = "site (serves page_contact) browser_fine"
  let ?r = "\<lparr>success = True, html = Some page_contact,
             text_js = Some (plain_text page_contact), error = None\<rparr>"
  have su: "start_url ''acme.test'' = ''https://acme.test''"
    by (simp add: start_url_def startsWith_def)
  have h1: "''acme.test'' \<noteq> []" by simp
  have h2: "hostname ?w (start_url ''acme.test'') = Ok ''acme.test''" by (simp add: site_def)
  have h3: "outcome (simpleFetch (net ?w) (start_url ''acme.test'') 10000) = Ok ?r"
    using simpleFetch_serves [of 10000 page_contact] by (simp add: site_def)
  have h4: "success ?r" and h5: "html ?r = Some page_contact" by simp_all
  have h6: "5000 \<le> length page_contact" by (simp add: page_contact_def)
  have nb: "\<not> isBlocked page_contact" by (rule not_blocked_page_contact)
  show ?thesis
    using crawlWebsite_tier_skip [OF h1 h2 h3 h4 h5 h6, of no_options] nb flags_page_contact
    by (simp add: isBlocked_def su plain_text_page_contact)
qed

text \<open>
  \<^bold>\<open>C2.\<close> When the direct fetch runs into its timeout of 10000 ms (the network has not
  settled the request by then), \<open>simpleFetch\<close> returns \<open>success = false\<close>, and
  \<open>crawlWebsite\<close> returns what \<open>crawlWithPlaywright\<close> returns for the start URL; the trace
  holds exactly one launch of the browser.  That result is the empty one when the browser
  tier fails.
\<close>

theorem crawlWebsite_fetch_timeout_escalates:
  assumes "u \<noteq> []"
    and "hostname w (start_url u) = Ok domain"
    and "10000 \<le> latency (net w (start_url u))"
  shows "outcome (simpleFetch (net w) (start_url u) 10000) = Ok (failed abort_message) \<and>
     \<not> success (failed abort_message) \<and>
     outcome (crawlWebsite w (Some u) opts) =
       outcome (crawlWithPlaywright w (start_url u) domain (max_pages opts)) \<and>
     count_list (trace (crawlWebsite w (Some u) opts)) Launch = 1"
proof -
  have sf: "outcome (simpleFetch (net w) (start_url u) 10000) = Ok (failed abort_message)"
    using assms(3) by (rule simpleFetch_timeout [of 10000 "net w" "start_url u"])
  have nu: "\<not> usable (failed abort_message)"
    by (simp add: usable_def failed_def)
  from crawlWebsite_fallback [OF assms(1,2) sf nu, of opts]
  have "outcome (crawlWebsite w (Some u) opts) =
          outcome (crawlWithPlaywright w (start_url u) domain (max_pages opts))"
    and "count_list (trace (crawlWebsite w (Some u) opts)) Launch =
          count_list (trace (crawlWithPlaywright w (start_url u) domain (max_pages opts))) Launch"
    by (simp_all add: outcome_def trace_def escalation_log_def failed_def)
  with sf crawlWithPlaywright_launch_once [of w "start_url u" domain "max_pages opts"]
  show ?thesis by (simp add: failed_def)
qed

theorem crawlWebsite_fetch_timeout_escalates_witness:
  "outcome (crawlWebsite (site (NetFail 10000 ''socket hang up'') browser_nav_timeout)
      (Some ''acme.test'') no_options) =
     Ok (JObj [(''pages'', JArr []), (''metadata'', JObj []), (''htmlContent'', JStr [])]) \<and>
   outcome (crawlWebsite (site (NetResponse 12000 \<lparr>status = 200, statusText = ''OK'', body = Ok page_contact\<rparr>) browser_fine)
      (Some ''acme.test'') no_options) =
     outcome (crawlWithPlaywright (site (NetResponse 12000 \<lparr>status = 200, statusText = ''OK'', body = Ok page_contact\<rparr>) browser_fine)
         ''https://acme.test'' ''acme.test'' 10) \<and>
   count_list (trace (crawlWebsite (site (NetFail 10000 ''socket hang up'') browser_nav_timeout)
      (Some ''acme.test'') no_options)) Launch = 1"
proof -
  let ?w = "site (NetFail 10000 ''socket hang up'') browser_nav_timeout"
  let ?v = "site (NetResponse 12000 \<lparr>status = 200, statusText = ''OK'', body = Ok page_contact\<rparr>) browser_fine"
  have su: "start_url ''acme.test'' = ''https://acme.test''"
    by (simp add: start_url_def startsWith_def)
  have h1: "''acme.test'' \<noteq> []" by simp
  have h2: "hostname ?w (start_url ''acme.test'') = Ok ''acme.test''" by (simp add: site_def)
  have h3: "10000 \<le> latency (net ?w (start_url ''acme.test''))" by (simp add: site_def)
  have g2: "hostname ?v (start_url ''acme.test'') = Ok ''acme.test''" by (simp add: site_def)
  have g3: "10000 \<le> latency (net ?v (start_url ''acme.test''))" by (simp add: site_def)
  have nb: "\<not> browser_all_ok (browser ?w ''https://acme.test'')"
    by (simp add: site_def browser_all_ok_def browser_nav_timeout_def browser_fine_def)
  have mp: "max_pages no_options = 10" by (simp add: max_pages_def no_options_def)
  show ?thesis
    using crawlWebsite_fetch_timeout_escalates [OF h1 h2 h3, of no_options]
      crawlWebsite_fetch_timeout_escalates [OF h1 g2 g3, of no_options]
      crawlWithPlaywright_failure [OF nb, of "''acme.test''" 10]
    by (simp add: su mp empty_result_def)
qed

text \<open>
  \<^bold>\<open>C6.\<close> The browser tier at a site whose browser launches but whose
  \<open>browser.newContext()\<close> throws: the error is caught by the outer handler, the tier
  returns the empty result, and \<open>browser.close()\<close> is never called although the browser
  was launched.  The \<open>finally\<close> block that closes the browser guards the navigation only.
\<close>

theorem crawlWithPlaywright_leaks_browser:
  "crawlWithPlaywright (site (serves page_denied) browser_no_context) ''https://acme.test'' ''acme.test'' 10 =
     ([Launch, NewContext, Log Error ''Playwright error for acme.test: Target closed''],
      Ok (JObj [(''pages'', JArr []), (''metadata'', JObj []), (''htmlContent'', JStr [])])) \<and>
   Launch \<in> set (trace (crawlWithPlaywright (site (serves page_denied) browser_no_context)
                          ''https://acme.test'' ''acme.test'' 10)) \<and>
   Close \<notin> set (trace (crawlWithPlaywright (site (serves page_denied) browser_no_context)
                          ''https://acme.test'' ''acme.test'' 10))"
  by (simp add: crawlWithPlaywright_def site_def browser_no_context_def browser_fine_def
      io_defs trace_def empty_result_def)




lemma page_denied_facts:
  "length page_denied = 3000" "includes_js page_denied ''Access Denied''"
  by (simp_all add: page_denied_def includes_js_def)

lemma denied_engine_error:
  "engine_error (site (serves page_denied) browser_nav_timeout) (Some ''acme.test'')"
  by (simp add: engine_error_def site_def simpleFetch_serves usable_def html_str_def
      isBlocked_def page_denied_facts browser_all_ok_def browser_nav_timeout_def
      browser_fine_def)

lemma crawlWebsite_engine_error:
  assumes "engine_error w url"
  shows "outcome (crawlWebsite w url opts) = Ok empty_result"
proof -
  from assms obtain u where u: "url = Some u" "u \<noteq> []"
    by (auto simp: engine_error_def split: option.splits)
  show ?thesis
  proof (cases "hostname w (start_url u)")
    case (Raised msg)
    with u show ?thesis by (simp add: crawlWebsite_bad_url outcome_def)
  next
    case (Ok domain)
    obtain r where r: "outcome (simpleFetch (net w) (start_url u) 10000) = Ok r"
      using simpleFetch_total by blast
    with assms u Ok have nu: "\<not> usable r" and nb: "\<not> browser_all_ok (browser w (start_url u))"
      by (simp_all add: engine_error_def)
    from crawlWebsite_fallback [OF u(2) Ok r nu, of opts]
      crawlWithPlaywright_failure [OF nb, of domain "max_pages opts"] u(1)
    show ?thesis by (simp add: outcome_def)
  qed
qed

lemma crawlWebsite_no_success_prop:
  "result_prop (outcome (crawlWebsite w url opts)) ''success'' = Ok JUndefined"
  using crawlWebsite_shape [of w url opts]
  by (auto simp: result_prop_def empty_result_def buildCrawlResult_def io_defs outcome_def)

text \<open>
  \<^bold>\<open>C3\<close>, as stated, at the scenario of the claim: a page of 3000 code units that
  contains \<open>Access Denied\<close>, then a navigation timeout in the browser.  The returned object
  has no \<open>success\<close> property and its \<open>metadata\<close> has no flag: neither reads as
  \<open>false\<close>, both read as \<open>undefined\<close>.
\<close>

theorem crawlWebsite_success_false_counterexample:
  "length page_denied = 3000 \<and> includes_js page_denied ''Access Denied'' \<and>
   page_goto browser_nav_timeout = Raised ''page.goto: Timeout 15000ms exceeded.'' \<and>
   result_prop (outcome (crawlWebsite (site (serves page_denied) browser_nav_timeout)
                           (Some ''acme.test'') no_options)) ''success'' \<noteq> Ok (JBool False) \<and>
   metadata_prop (outcome (crawlWebsite (site (serves page_denied) browser_nav_timeout)
                           (Some ''acme.test'') no_options)) ''hasContactForm'' \<noteq> Ok (JBool False)"
proof -
  have "page_goto browser_nav_timeout = Raised ''page.goto: Timeout 15000ms exceeded.''"
    by (simp add: browser_nav_timeout_def)
  then show ?thesis
    by (simp add: crawlWebsite_engine_error [OF denied_engine_error] page_denied_facts
        result_prop_def metadata_prop_def empty_result_def)
qed

text \<open>
  \<^bold>\<open>C3\<close>, amended.  For every input \<open>crawlWebsite\<close> returns and never throws; whenever the
  start URL does not parse, or the direct fetch is not usable and a call of the browser tier
  throws, the returned object is \<^verbatim>\<open>{pages: [], metadata: {}, htmlContent: ''}\<close>: an empty page
  list, a metadata object without any flag, and empty content.  No result of
  \<open>crawlWebsite\<close> has a \<open>success\<close> property.
\<close>

theorem crawlWebsite_contains_errors:
  "(\<exists>r. outcome (crawlWebsite w url opts) = Ok r) \<and>
   (engine_error w url \<longrightarrow>
      outcome (crawlWebsite w url opts) =
        Ok (JObj [(''pages'', JArr []), (''metadata'', JObj []), (''htmlContent'', JStr [])])) \<and>
   result_prop (outcome (crawlWebsite w url opts)) ''success'' = Ok JUndefined"
  using crawlWebsite_total [of w url opts] crawlWebsite_engine_error [of w url opts]
    crawlWebsite_no_success_prop [of w url opts]
  by (simp add: empty_result_def)

theorem crawlWebsite_contains_errors_witness:
  "engine_error (site (serves page_denied) browser_nav_timeout) (Some ''acme.test'') \<and>
   outcome (crawlWebsite (site (serves page_denied) browser_nav_timeout)
              (Some ''acme.test'') no_options) =
     Ok (JObj [(''pages'', JArr []), (''metadata'', JObj []), (''htmlContent'', JStr [])])"
  using crawlWebsite_contains_errors
          [of "site (serves page_denied) browser_nav_timeout" "Some ''acme.test''" no_options]
    denied_engine_error
  by simp

subsection \<open>Feature flags\<close>









subsection \<open>The external crawler\<close>






















subsection \<open>Enrichment units\<close>


































subsection \<open>Outreach generation\<close>






















subsection \<open>The batch controller\<close>



























end
